theory Spec2Isabelle
  imports Main "HOL-Library.Sublist"
begin

section \<open>The in-memory cache of the language server (pkg/utils/cache.go)\<close>

text \<open>
  The Go code keeps five maps from a string key to a pointer, each inside a store struct
  that also carries a mutex. Callers hand pointers in and get pointers (and, for three
  stores, the map itself) back, so objects and maps are shared between the store and its
  callers. The embedding therefore uses an explicit memory: objects and maps live at
  addresses, a pointer is an address or nil, and every method takes the memory and
  returns the updated one.

  Every method of a store locks the store's mutex on entry and releases it by a deferred
  unlock on every exit, so a call running alone has exactly the effect of its body; the
  embedding gives that sequential effect and leaves the mutex out. Stores are the ones
  \<open>init\<close> has set up (a map and a mutex allocated for each).

  A nil dereference is a Go run-time panic. No method recovers from it, so it ends the
  call: the embedding returns it as \<open>Inl NilPointerDereference\<close>.
\<close>

subsection \<open>Memory\<close>

type_synonym addr = nat

text \<open>A pointer \<open>*T\<close>: \<open>None\<close> is nil.\<close>
type_synonym ptr = "addr option"

text \<open>
  The contents of a \<open>map[string]*T\<close> (\<open>protocol.URI\<close> is a string type): a key that is
  present is mapped to its pointer, which may itself be nil.
\<close>
type_synonym gomap = "string \<rightharpoonup> ptr"

datatype error = NilPointerDereference

text \<open>
  \<open>protocol.TextDocumentItem\<close> of go.lsp.dev/protocol. \<open>Version\<close> is an \<open>int32\<close>; the cache
  only stores it.
\<close>
record TextDocumentItem =
  URI :: string
  LanguageID :: string
  Version :: int
  Text :: string

text \<open>
  \<open>ast.OrbInfo\<close> is declared in pkg/ast, outside this file; the record has the fields
  cache.go reads and writes. The parsed attributes are a struct of their own, kept as a
  type parameter.
\<close>
record RemoteOrbInfo =
  FilePath :: string

record 'pa OrbInfo =
  OrbParsedAttributes :: 'pa
  RemoteInfo :: RemoteOrbInfo

record CachedDockerImage =
  Checked :: bool
  Exists :: bool

text \<open>
  A slice \<open>[]string\<close> is a view into a backing array: the array, the index in it of the
  slice's first element, the length and the capacity. Two slices can view the same
  array. The nil slice has length and capacity 0.
\<close>
record slice =
  base :: addr
  start :: nat
  len :: nat
  cap :: nat

text \<open>
  \<open>Context\<close> and \<open>Project\<close> are declared elsewhere in package utils; the records have the
  fields cache.go uses.
\<close>
record Context =
  Name :: string
  envVariables :: slice

record Project =
  Slug :: string
  EnvVariables :: slice

text \<open>
  One heap per object type, one heap of maps, one heap of the arrays of strings that
  back the slices (an array is read by index), and the next address that \<open>new\<close>,
  \<open>make\<close> and \<open>append\<close> hand out. Go has no dangling pointers: every address holds an
  object.
\<close>
record 'pa Memory =
  documents :: "addr \<Rightarrow> TextDocumentItem"
  orbInfos :: "addr \<Rightarrow> 'pa OrbInfo"
  dockerImages :: "addr \<Rightarrow> CachedDockerImage"
  contextObjs :: "addr \<Rightarrow> Context"
  projectObjs :: "addr \<Rightarrow> Project"
  stringArrays :: "addr \<Rightarrow> nat \<Rightarrow> string"
  mapObjs :: "addr \<Rightarrow> gomap"
  nextFree :: addr

subsection \<open>Go's slice operations\<close>

text \<open>The elements of a slice, in order: what a range over it reads.\<close>
definition sliceElems :: "'pa Memory \<Rightarrow> slice \<Rightarrow> string list" where
  "sliceElems h s = map (\<lambda>i. stringArrays h (base s) (start s + i)) [0..<len s]"

text \<open>
  \<open>append(s, x)\<close>. With room left (\<open>len < cap\<close>) the element is written into the backing
  array right after the slice's last one, whoever else views that cell, and the slice
  returned views the same array. Without room a new array is allocated, the elements
  and \<open>x\<close> are copied into it, and the slice returned views the new array; how much
  room beyond \<open>x\<close> the new array has is the run time's choice, the argument \<open>spare\<close>.
\<close>
definition go_append :: "slice \<Rightarrow> string \<Rightarrow> nat \<Rightarrow> 'pa Memory \<Rightarrow> slice \<times> 'pa Memory" where
  "go_append s x spare h =
     (if len s < cap s
      then (s\<lparr>len := Suc (len s)\<rparr>,
            h\<lparr>stringArrays := (stringArrays h)
                 (base s := (stringArrays h (base s))(start s + len s := x))\<rparr>)
      else
        (let a = nextFree h;
             elems = sliceElems h s @ [x]
         in (\<lparr>base = a, start = 0, len = Suc (len s), cap = Suc (len s) + spare\<rparr>,
             h\<lparr>stringArrays := (stringArrays h)
                  (a := (\<lambda>i. if i < length elems then elems ! i else [])),
               nextFree := Suc a\<rparr>)))"

subsection \<open>Go's map operations\<close>

text \<open>\<open>m[k]\<close>: the zero value (nil) when the key is absent.\<close>
definition mapaccess :: "'pa Memory \<Rightarrow> addr \<Rightarrow> string \<Rightarrow> ptr" where
  "mapaccess h m k = (case mapObjs h m k of None \<Rightarrow> None | Some p \<Rightarrow> p)"

text \<open>\<open>_, ok := m[k]\<close>\<close>
definition mapaccess_ok :: "'pa Memory \<Rightarrow> addr \<Rightarrow> string \<Rightarrow> bool" where
  "mapaccess_ok h m k = (case mapObjs h m k of None \<Rightarrow> False | Some p \<Rightarrow> True)"

text \<open>\<open>m[k] = p\<close>\<close>
definition mapassign :: "addr \<Rightarrow> string \<Rightarrow> ptr \<Rightarrow> 'pa Memory \<Rightarrow> 'pa Memory" where
  "mapassign m k p h = h\<lparr>mapObjs := (mapObjs h)(m := (mapObjs h m)(k \<mapsto> p))\<rparr>"

text \<open>\<open>delete(m, k)\<close>\<close>
definition mapdelete :: "addr \<Rightarrow> string \<Rightarrow> 'pa Memory \<Rightarrow> 'pa Memory" where
  "mapdelete m k h = h\<lparr>mapObjs := (mapObjs h)(m := (mapObjs h m)(k := None))\<rparr>"

text \<open>\<open>make(map[string]*T)\<close>: a new, empty map at the next free address.\<close>
definition makemap :: "'pa Memory \<Rightarrow> addr \<times> 'pa Memory" where
  "makemap h =
     (nextFree h, h\<lparr>mapObjs := (mapObjs h)(nextFree h := Map.empty), nextFree := Suc (nextFree h)\<rparr>)"

subsection \<open>The store structs\<close>

record FileCache =
  fileCache :: addr

record OrbCache =
  orbsCache :: addr

record DockerCache =
  dockerCache :: addr

record ContextCache =
  contextCache :: addr

record ProjectCache =
  projectCache :: addr

record Cache =
  FileCache :: FileCache
  OrbCache :: OrbCache
  DockerCache :: DockerCache
  ContextCache :: ContextCache
  ProjectCache :: ProjectCache

text \<open>\<open>CreateCache\<close> with \<open>init\<close> inlined: the five maps are made in the order of \<open>init\<close>.\<close>
definition CreateCache :: "'pa Memory \<Rightarrow> Cache \<times> 'pa Memory" where
  "CreateCache h0 =
     (let (mf, h1) = makemap h0;
          (mo, h2) = makemap h1;
          (md, h3) = makemap h2;
          (mc, h4) = makemap h3;
          (mp, h5) = makemap h4
      in (\<lparr>FileCache = \<lparr>fileCache = mf\<rparr>, OrbCache = \<lparr>orbsCache = mo\<rparr>,
           DockerCache = \<lparr>dockerCache = md\<rparr>, ContextCache = \<lparr>contextCache = mc\<rparr>,
           ProjectCache = \<lparr>projectCache = mp\<rparr>\<rparr>, h5))"

subsection \<open>FILE\<close>

text \<open>\<open>file.URI\<close> is read before the map is written, so a nil \<open>file\<close> panics first.\<close>
definition SetFile :: "FileCache \<Rightarrow> ptr \<Rightarrow> 'pa Memory \<Rightarrow> error + (TextDocumentItem \<times> 'pa Memory)" where
  "SetFile c file h =
     (case file of
        None \<Rightarrow> Inl NilPointerDereference
      | Some a \<Rightarrow>
          (let h' = mapassign (fileCache c) (URI (documents h a)) file h
           in Inr (documents h' a, h')))"

definition GetFile :: "FileCache \<Rightarrow> string \<Rightarrow> 'pa Memory \<Rightarrow> ptr" where
  "GetFile c uri h = mapaccess h (fileCache c) uri"

text \<open>Returns the map itself: in Go a map value is a reference to the map.\<close>
definition GetFiles :: "FileCache \<Rightarrow> 'pa Memory \<Rightarrow> addr" where
  "GetFiles c h = fileCache c"

definition RemoveFile :: "FileCache \<Rightarrow> string \<Rightarrow> 'pa Memory \<Rightarrow> 'pa Memory" where
  "RemoveFile c uri h = mapdelete (fileCache c) uri h"

subsection \<open>ORBS\<close>

definition HasOrb :: "OrbCache \<Rightarrow> string \<Rightarrow> 'pa Memory \<Rightarrow> bool" where
  "HasOrb c orbID h = mapaccess_ok h (orbsCache c) orbID"


definition UpdateOrbParsedAttributes ::
  "OrbCache \<Rightarrow> string \<Rightarrow> 'pa \<Rightarrow> 'pa Memory \<Rightarrow> error + ('pa \<times> 'pa Memory)" where
  "UpdateOrbParsedAttributes c orbID parsedOrbAttributes h =
     (case mapaccess h (orbsCache c) orbID of
        None \<Rightarrow> Inl NilPointerDereference
      | Some a \<Rightarrow>
          Inr (parsedOrbAttributes,
               h\<lparr>orbInfos := (orbInfos h)
                    (a := (orbInfos h a)\<lparr>OrbParsedAttributes := parsedOrbAttributes\<rparr>)\<rparr>))"

definition GetOrb :: "OrbCache \<Rightarrow> string \<Rightarrow> 'pa Memory \<Rightarrow> ptr" where
  "GetOrb c orbID h = mapaccess h (orbsCache c) orbID"

definition RemoveOrb :: "OrbCache \<Rightarrow> string \<Rightarrow> 'pa Memory \<Rightarrow> 'pa Memory" where
  "RemoveOrb c orbID h = mapdelete (orbsCache c) orbID h"



subsection \<open>The host's file system\<close>








subsection \<open>Docker images cache\<close>

text \<open>\<open>&CachedDockerImage{...}\<close> allocates the entry at the next free address.\<close>
definition DockerCache_Add :: "DockerCache \<Rightarrow> string \<Rightarrow> bool \<Rightarrow> 'pa Memory \<Rightarrow> ptr \<times> 'pa Memory" where
  "DockerCache_Add c name exists h =
     (let a = nextFree h;
          h1 = h\<lparr>dockerImages := (dockerImages h)(a := \<lparr>Checked = True, Exists = exists\<rparr>),
                 nextFree := Suc a\<rparr>;
          h2 = mapassign (dockerCache c) name (Some a) h1
      in (mapaccess h2 (dockerCache c) name, h2))"

definition DockerCache_Get :: "DockerCache \<Rightarrow> string \<Rightarrow> 'pa Memory \<Rightarrow> ptr" where
  "DockerCache_Get c name h = mapaccess h (dockerCache c) name"

definition DockerCache_Remove :: "DockerCache \<Rightarrow> string \<Rightarrow> 'pa Memory \<Rightarrow> 'pa Memory" where
  "DockerCache_Remove c name h = mapdelete (dockerCache c) name h"

subsection \<open>Context cache\<close>

text \<open>
  Modelled from the spec: \<open>FindInArray\<close> is declared elsewhere in package utils. The spec
  describes a linear scan with exact match; the callers test the result for \<open>< 0\<close>, so
  it is the index of the first match, or \<open>-1\<close>.
\<close>
fun FindInArrayFrom :: "int \<Rightarrow> 'a list \<Rightarrow> 'a \<Rightarrow> int" where
  "FindInArrayFrom i [] elem = - 1"
| "FindInArrayFrom i (e # es) elem = (if e = elem then i else FindInArrayFrom (i + 1) es elem)"

definition FindInArray :: "'a list \<Rightarrow> 'a \<Rightarrow> int" where
  "FindInArray array elem = FindInArrayFrom 0 array elem"

definition SetContext :: "ContextCache \<Rightarrow> ptr \<Rightarrow> 'pa Memory \<Rightarrow> error + (ptr \<times> 'pa Memory)" where
  "SetContext c ctx h =
     (case ctx of
        None \<Rightarrow> Inl NilPointerDereference
      | Some a \<Rightarrow> Inr (ctx, mapassign (contextCache c) (Name (contextObjs h a)) ctx h))"

definition GetContext :: "ContextCache \<Rightarrow> string \<Rightarrow> 'pa Memory \<Rightarrow> ptr" where
  "GetContext c name h = mapaccess h (contextCache c) name"

definition RemoveContext :: "ContextCache \<Rightarrow> string \<Rightarrow> 'pa Memory \<Rightarrow> 'pa Memory" where
  "RemoveContext c name h = mapdelete (contextCache c) name h"

text \<open>
  \<open>spare\<close> is the room the run time leaves in the array \<open>append\<close> allocates, when it
  allocates one.
\<close>
definition AddEnvVariableToContext ::
  "ContextCache \<Rightarrow> string \<Rightarrow> string \<Rightarrow> nat \<Rightarrow> 'pa Memory \<Rightarrow> error + 'pa Memory" where
  "AddEnvVariableToContext c name envVariable spare h =
     (case mapaccess h (contextCache c) name of
        None \<Rightarrow> Inl NilPointerDereference
      | Some a \<Rightarrow>
          (let ctx = contextObjs h a;
               h1 = (if FindInArray (sliceElems h (envVariables ctx)) envVariable < 0
                     then (let (s, h') = go_append (envVariables ctx) envVariable spare h
                           in h'\<lparr>contextObjs := (contextObjs h')
                                   (a := ctx\<lparr>envVariables := s\<rparr>)\<rparr>)
                     else h)
           in Inr (mapassign (contextCache c) name (Some a) h1)))"

definition GetAllContext :: "ContextCache \<Rightarrow> 'pa Memory \<Rightarrow> addr" where
  "GetAllContext c h = contextCache c"

subsection \<open>Project cache\<close>

definition SetProject :: "ProjectCache \<Rightarrow> ptr \<Rightarrow> 'pa Memory \<Rightarrow> error + (ptr \<times> 'pa Memory)" where
  "SetProject c project h =
     (case project of
        None \<Rightarrow> Inl NilPointerDereference
      | Some a \<Rightarrow> Inr (project, mapassign (projectCache c) (Slug (projectObjs h a)) project h))"

definition GetProject :: "ProjectCache \<Rightarrow> string \<Rightarrow> 'pa Memory \<Rightarrow> ptr" where
  "GetProject c name h = mapaccess h (projectCache c) name"

definition RemoveProject :: "ProjectCache \<Rightarrow> string \<Rightarrow> 'pa Memory \<Rightarrow> 'pa Memory" where
  "RemoveProject c name h = mapdelete (projectCache c) name h"

definition GetAllProjects :: "ProjectCache \<Rightarrow> 'pa Memory \<Rightarrow> addr" where
  "GetAllProjects c h = projectCache c"

definition AddEnvVariableToProject ::
  "ProjectCache \<Rightarrow> string \<Rightarrow> string \<Rightarrow> nat \<Rightarrow> 'pa Memory \<Rightarrow> error + 'pa Memory" where
  "AddEnvVariableToProject c name envVariable spare h =
     (case mapaccess h (projectCache c) name of
        None \<Rightarrow> Inl NilPointerDereference
      | Some a \<Rightarrow>
          (let project = projectObjs h a;
               h1 = (if FindInArray (sliceElems h (EnvVariables project)) envVariable < 0
                     then (let (s, h') = go_append (EnvVariables project) envVariable spare h
                           in h'\<lparr>projectObjs := (projectObjs h')
                                   (a := project\<lparr>EnvVariables := s\<rparr>)\<rparr>)
                     else h)
           in Inr (mapassign (projectCache c) name (Some a) h1)))"

subsection \<open>The path of an orb's cache file\<close>

text \<open>
  \<open>path.Join\<close> and \<open>path.Clean\<close> belong to Go's standard library. \<open>Clean\<close> walks the
  path element by element: an empty element and \<open>.\<close> are dropped, \<open>..\<close> removes the
  element before it (or is kept at the front of a path that is not rooted), anything
  else is kept. \<open>segments\<close> cuts a path at every slash.
\<close>
fun segments :: "string \<Rightarrow> string list" where
  "segments [] = [[]]"
| "segments (c # cs) =
     (if c = CHR ''/'' then [] # segments cs
      else (case segments cs of [] \<Rightarrow> [[c]] | s # ss \<Rightarrow> (c # s) # ss))"

fun joinSlash :: "string list \<Rightarrow> string" where
  "joinSlash [] = []"
| "joinSlash [x] = x"
| "joinSlash (x # y # ys) = x @ CHR ''/'' # joinSlash (y # ys)"

text \<open>The loop of \<open>Clean\<close>; \<open>out\<close> holds the elements written so far, the last one first.\<close>
fun cleanLoop :: "bool \<Rightarrow> string list \<Rightarrow> string list \<Rightarrow> string list" where
  "cleanLoop rooted out [] = out"
| "cleanLoop rooted out (s # ss) =
     cleanLoop rooted
       (if s = [] then out
        else if s = ''.'' then out
        else if s = ''..'' then
          (case out of
             [] \<Rightarrow> if rooted then out else [s]
           | t # ts \<Rightarrow> if \<not> rooted \<and> t = ''..'' then s # out else ts)
        else s # out) ss"

definition path_Clean :: "string \<Rightarrow> string" where
  "path_Clean p =
     (if p = [] then ''.''
      else
        (let rooted = (hd p = CHR ''/'');
             out = cleanLoop rooted [] (segments p);
             s = (if rooted then ''/'' else []) @ joinSlash (rev out)
         in if s = [] then ''.'' else s))"

text \<open>The loop of \<open>Join\<close> that fills the buffer.\<close>
fun joinLoop :: "string \<Rightarrow> string list \<Rightarrow> string" where
  "joinLoop buf [] = buf"
| "joinLoop buf (e # es) =
     joinLoop (if buf \<noteq> [] \<or> e \<noteq> []
               then (if buf \<noteq> [] then buf @ ''/'' else buf) @ e
               else buf) es"

definition path_Join :: "string list \<Rightarrow> string" where
  "path_Join elem = (if concat elem = [] then [] else path_Clean (joinLoop [] elem))"

text \<open>
  What package xdg (github.com/adrg/xdg) gives: the home directory, the base cache
  directory, and whether \<open>CacheFile\<close> can find or create the directory of the file
  under that base. \<open>xdg.CacheFile\<close> returns the base joined with the relative path, or
  an error (\<open>None\<close>).
\<close>
record XDG =
  Home :: string
  CacheHome :: string
  cacheDirUsable :: bool

definition xdg_CacheFile :: "XDG \<Rightarrow> string \<Rightarrow> string option" where
  "xdg_CacheFile x relPath =
     (if cacheDirUsable x then Some (path_Join [CacheHome x, relPath]) else None)"

definition GetOrbCacheFSPath :: "XDG \<Rightarrow> string \<Rightarrow> string" where
  "GetOrbCacheFSPath x orbYaml =
     (let file = path_Join [''cci'', ''orbs'', ''.circleci'', orbYaml @ ''.yml'']
      in case xdg_CacheFile x file of
           Some filePath \<Rightarrow> filePath
         | None \<Rightarrow> path_Join [Home x, ''.cache'', file])"

text \<open>
  A Linux host: the cache directory is \<open>.cache\<close> under the home directory, usable or not.
\<close>
definition linuxXDG :: "bool \<Rightarrow> XDG" where
  "linuxXDG usable = \<lparr>Home = ''/home/u'', CacheHome = ''/home/u/.cache'', cacheDirUsable = usable\<rparr>"

subsection \<open>A memory to start from\<close>

text \<open>Nothing allocated yet; every address holds the zero value of its type.\<close>
definition emptyMemory :: "unit Memory" where
  "emptyMemory =
     \<lparr>documents = (\<lambda>a. \<lparr>URI = [], LanguageID = [], Version = 0, Text = []\<rparr>),
      orbInfos = (\<lambda>a. \<lparr>OrbParsedAttributes = (), RemoteInfo = \<lparr>FilePath = []\<rparr>\<rparr>),
      dockerImages = (\<lambda>a. \<lparr>Checked = False, Exists = False\<rparr>),
      contextObjs = (\<lambda>a. \<lparr>Name = [], envVariables = \<lparr>base = 0, start = 0, len = 0, cap = 0\<rparr>\<rparr>),
      projectObjs = (\<lambda>a. \<lparr>Slug = [], EnvVariables = \<lparr>base = 0, start = 0, len = 0, cap = 0\<rparr>\<rparr>),
      stringArrays = (\<lambda>a i. []),
      mapObjs = (\<lambda>a. Map.empty),
      nextFree = 0\<rparr>"

text \<open>The cache \<open>CreateCache\<close> returns on it, and the memory it leaves.\<close>
definition freshCache :: Cache where
  "freshCache = fst (CreateCache emptyMemory)"

definition freshMemory :: "unit Memory" where
  "freshMemory = snd (CreateCache emptyMemory)"

text \<open>
  The memory after a caller has made one document, one orb, one context and one project
  (each at address 5) and no store holds anything yet. The context's variables are a
  full slice (the array at 6), the project's have room for one more (the array at 7).
\<close>
definition sampleMemory :: "unit Memory" where
  "sampleMemory =
     freshMemory
       \<lparr>documents := (documents freshMemory)
          (5 := \<lparr>URI = ''file:///a.yml'', LanguageID = ''yaml'', Version = 1, Text = ''version: 2.1''\<rparr>),
        orbInfos := (orbInfos freshMemory)
          (5 := \<lparr>OrbParsedAttributes = (), RemoteInfo = \<lparr>FilePath = ''/cache/node.yml''\<rparr>\<rparr>),
        contextObjs := (contextObjs freshMemory)
          (5 := \<lparr>Name = ''org-global'',
                  envVariables = \<lparr>base = 6, start = 0, len = 1, cap = 1\<rparr>\<rparr>),
        projectObjs := (projectObjs freshMemory)
          (5 := \<lparr>Slug = ''gh/acme/app'',
                  EnvVariables = \<lparr>base = 7, start = 0, len = 1, cap = 2\<rparr>\<rparr>),
        stringArrays := (stringArrays freshMemory)
          (6 := (\<lambda>i. [])(0 := ''TOKEN''), 7 := (\<lambda>i. [])(0 := ''TOKEN'')),
        nextFree := 8\<rparr>"

text \<open>The same memory once each store holds its object under the object's key.\<close>
definition storedMemory :: "unit Memory" where
  "storedMemory =
     mapassign (fileCache (FileCache freshCache)) ''file:///a.yml'' (Some 5)
       (mapassign (orbsCache (OrbCache freshCache)) ''circleci/node@5'' (Some 5)
         (mapassign (contextCache (ContextCache freshCache)) ''org-global'' (Some 5)
           (mapassign (projectCache (ProjectCache freshCache)) ''gh/acme/app'' (Some 5)
              sampleMemory)))"


text \<open>
  Two projects in the project store whose lists view one array (at 10) holding \<open>A\<close>,
  \<open>B\<close>, \<open>X\<close>: \<open>p1\<close> (at 8) views its first element only, with room up to three;
  \<open>p2\<close> (at 9) views all three. Neither list has a duplicate.
\<close>
definition sharedMemory :: "unit Memory" where
  "sharedMemory =
     mapassign (projectCache (ProjectCache freshCache)) ''p1'' (Some 8)
       (mapassign (projectCache (ProjectCache freshCache)) ''p2'' (Some 9)
         (freshMemory
            \<lparr>projectObjs := (projectObjs freshMemory)
               (8 := \<lparr>Slug = ''p1'', EnvVariables = \<lparr>base = 10, start = 0, len = 1, cap = 3\<rparr>\<rparr>,
                9 := \<lparr>Slug = ''p2'', EnvVariables = \<lparr>base = 10, start = 0, len = 3, cap = 3\<rparr>\<rparr>),
             stringArrays := (stringArrays freshMemory)
               (10 := (\<lambda>i. [])(0 := ''A'', 1 := ''B'', 2 := ''X'')),
             nextFree := 11\<rparr>))"

text \<open>The same two projects when \<open>p2\<close> views an array of its own (at 11).\<close>
definition apartMemory :: "unit Memory" where
  "apartMemory =
     sharedMemory
       \<lparr>projectObjs := (projectObjs sharedMemory)
          (9 := \<lparr>Slug = ''p2'', EnvVariables = \<lparr>base = 11, start = 0, len = 3, cap = 3\<rparr>\<rparr>),
        stringArrays := (stringArrays sharedMemory)
          (11 := (\<lambda>i. [])(0 := ''A'', 1 := ''B'', 2 := ''X'')),
        nextFree := 12\<rparr>"

text \<open>
  Three orbs in the orb store, and a file system in which the file of the first can be
  removed, the file of the second does not exist, and the file of the third exists but
  the host refuses to remove it. \<open>orbsOrder\<close> is one order a range over the map can take.
\<close>
definition orbsMemory :: "unit Memory" where
  "orbsMemory =
     mapassign (orbsCache (OrbCache freshCache)) ''circleci/go@1'' (Some 8)
       (mapassign (orbsCache (OrbCache freshCache)) ''circleci/rust@1'' (Some 9)
         (storedMemory
            \<lparr>orbInfos := (orbInfos storedMemory)
               (8 := \<lparr>OrbParsedAttributes = (), RemoteInfo = \<lparr>FilePath = ''/cache/go.yml''\<rparr>\<rparr>,
                9 := \<lparr>OrbParsedAttributes = (), RemoteInfo = \<lparr>FilePath = ''/cache/rust.yml''\<rparr>\<rparr>),
             nextFree := 10\<rparr>))"



subsection \<open>The set semantics of the variable lists\<close>








section \<open>Properties\<close>

subsection \<open>Map operations and the memories of the examples\<close>

lemma mapdelete_absent: "mapObjs h m k = None \<Longrightarrow> mapdelete m k h = h"
  by (simp add: mapdelete_def fun_upd_idem)

lemma mapaccess_mapdelete: "mapaccess (mapdelete m k h) m k = None"
  by (simp add: mapaccess_def mapdelete_def)


lemma mapObjs_mapassign_other: "k' \<noteq> k \<Longrightarrow> mapObjs (mapassign m k p h) m k' = mapObjs h m k'"
  by (simp add: mapassign_def)

lemma freshCache_eq: "freshCache = \<lparr>FileCache = \<lparr>fileCache = 0\<rparr>, OrbCache = \<lparr>orbsCache = 1\<rparr>,
    DockerCache = \<lparr>dockerCache = 2\<rparr>, ContextCache = \<lparr>contextCache = 3\<rparr>,
    ProjectCache = \<lparr>projectCache = 4\<rparr>\<rparr>"
  by (simp add: freshCache_def CreateCache_def makemap_def emptyMemory_def)

lemma freshMemory_eq: "freshMemory = emptyMemory\<lparr>nextFree := 5\<rparr>"
  by (simp add: freshMemory_def CreateCache_def makemap_def emptyMemory_def fun_upd_idem)

lemma FindInArrayFrom_neg: "0 \<le> i \<Longrightarrow> FindInArrayFrom i xs x < 0 \<longleftrightarrow> x \<notin> set xs"
  by (induction xs arbitrary: i) auto

lemma FindInArray_neg: "FindInArray xs x < 0 \<longleftrightarrow> x \<notin> set xs"
  by (simp add: FindInArray_def FindInArrayFrom_neg)

lemma count_list_distinct: "distinct xs \<Longrightarrow> count_list xs x = (if x \<in> set xs then 1 else 0)"
  by (induction xs) auto

lemma mapassign_same: "mapObjs h m k = Some p \<Longrightarrow> mapassign m k p h = h"
  by (simp add: mapassign_def fun_upd_idem)

subsection \<open>Set and Get\<close>



subsection \<open>Remove\<close>

text \<open>
  C8. In each of the five stores, Remove at a key deletes that key's entry and nothing
  else: afterwards the key is not in the store's map, so the Get at that key returns nil
  (and \<open>HasOrb\<close> is false), whether or not the key was there; the entry at every other
  key is the one it was; no other map and no stored object has changed; and when the
  key is not in the store's map, Remove changes nothing in the memory. Remove has no
  panic and returns no error: it is a total function to the memory.
\<close>
theorem Remove_then_Get_absent:
  "(GetFile fc k (RemoveFile fc k h) = None
      \<and> mapObjs (RemoveFile fc k h) (fileCache fc) k = None
      \<and> (\<forall>k'. k' \<noteq> k \<longrightarrow>
            mapObjs (RemoveFile fc k h) (fileCache fc) k' = mapObjs h (fileCache fc) k')
      \<and> (\<forall>m. m \<noteq> fileCache fc \<longrightarrow> mapObjs (RemoveFile fc k h) m = mapObjs h m)
      \<and> documents (RemoveFile fc k h) = documents h
      \<and> (mapObjs h (fileCache fc) k = None \<longrightarrow> RemoveFile fc k h = h))
   \<and> (GetOrb oc k (RemoveOrb oc k h) = None
      \<and> mapObjs (RemoveOrb oc k h) (orbsCache oc) k = None
      \<and> \<not> HasOrb oc k (RemoveOrb oc k h)
      \<and> (\<forall>k'. k' \<noteq> k \<longrightarrow>
            mapObjs (RemoveOrb oc k h) (orbsCache oc) k' = mapObjs h (orbsCache oc) k')
      \<and> (\<forall>m. m \<noteq> orbsCache oc \<longrightarrow> mapObjs (RemoveOrb oc k h) m = mapObjs h m)
      \<and> orbInfos (RemoveOrb oc k h) = orbInfos h
      \<and> (mapObjs h (orbsCache oc) k = None \<longrightarrow> RemoveOrb oc k h = h))
   \<and> (DockerCache_Get dc k (DockerCache_Remove dc k h) = None
      \<and> mapObjs (DockerCache_Remove dc k h) (dockerCache dc) k = None
      \<and> (\<forall>k'. k' \<noteq> k \<longrightarrow>
            mapObjs (DockerCache_Remove dc k h) (dockerCache dc) k' = mapObjs h (dockerCache dc) k')
      \<and> (\<forall>m. m \<noteq> dockerCache dc \<longrightarrow> mapObjs (DockerCache_Remove dc k h) m = mapObjs h m)
      \<and> dockerImages (DockerCache_Remove dc k h) = dockerImages h
      \<and> (mapObjs h (dockerCache dc) k = None \<longrightarrow> DockerCache_Remove dc k h = h))
   \<and> (GetContext cc k (RemoveContext cc k h) = None
      \<and> mapObjs (RemoveContext cc k h) (contextCache cc) k = None
      \<and> stringArrays (RemoveContext cc k h) = stringArrays h
      \<and> (\<forall>k'. k' \<noteq> k \<longrightarrow>
            mapObjs (RemoveContext cc k h) (contextCache cc) k' = mapObjs h (contextCache cc) k')
      \<and> (\<forall>m. m \<noteq> contextCache cc \<longrightarrow> mapObjs (RemoveContext cc k h) m = mapObjs h m)
      \<and> contextObjs (RemoveContext cc k h) = contextObjs h
      \<and> (mapObjs h (contextCache cc) k = None \<longrightarrow> RemoveContext cc k h = h))
   \<and> (GetProject pc k (RemoveProject pc k h) = None
      \<and> mapObjs (RemoveProject pc k h) (projectCache pc) k = None
      \<and> stringArrays (RemoveProject pc k h) = stringArrays h
      \<and> (\<forall>k'. k' \<noteq> k \<longrightarrow>
            mapObjs (RemoveProject pc k h) (projectCache pc) k' = mapObjs h (projectCache pc) k')
      \<and> (\<forall>m. m \<noteq> projectCache pc \<longrightarrow> mapObjs (RemoveProject pc k h) m = mapObjs h m)
      \<and> projectObjs (RemoveProject pc k h) = projectObjs h
      \<and> (mapObjs h (projectCache pc) k = None \<longrightarrow> RemoveProject pc k h = h))"
  by (simp add: GetFile_def RemoveFile_def GetOrb_def RemoveOrb_def HasOrb_def mapaccess_ok_def
      DockerCache_Get_def DockerCache_Remove_def GetContext_def RemoveContext_def
      GetProject_def RemoveProject_def mapaccess_mapdelete mapdelete_absent)
     (simp add: mapdelete_def)

theorem Remove_then_Get_absent_witness:
  "(GetFile (FileCache freshCache) ''file:///a.yml'' storedMemory = Some 5
     \<and> GetFile (FileCache freshCache) ''file:///a.yml''
          (RemoveFile (FileCache freshCache) ''file:///a.yml'' storedMemory) = None
     \<and> mapObjs freshMemory (fileCache (FileCache freshCache)) ''k'' = None
     \<and> RemoveFile (FileCache freshCache) ''k'' freshMemory = freshMemory)
   \<and> (GetOrb (OrbCache freshCache) ''circleci/node@5'' orbsMemory = Some 5
     \<and> GetOrb (OrbCache freshCache) ''circleci/node@5''
          (RemoveOrb (OrbCache freshCache) ''circleci/node@5'' orbsMemory) = None
     \<and> ''circleci/go@1'' \<noteq> ''circleci/node@5''
     \<and> mapObjs (RemoveOrb (OrbCache freshCache) ''circleci/node@5'' orbsMemory)
          (orbsCache (OrbCache freshCache)) ''circleci/go@1'' = Some (Some 8)
     \<and> mapObjs freshMemory (orbsCache (OrbCache freshCache)) ''k'' = None
     \<and> RemoveOrb (OrbCache freshCache) ''k'' freshMemory = freshMemory)
   \<and> (mapObjs freshMemory (dockerCache (DockerCache freshCache)) ''k'' = None
     \<and> DockerCache_Remove (DockerCache freshCache) ''k'' freshMemory = freshMemory
     \<and> DockerCache_Get (DockerCache freshCache) ''cimg/base''
          (snd (DockerCache_Add (DockerCache freshCache) ''cimg/base'' True sampleMemory)) = Some 8
     \<and> DockerCache_Get (DockerCache freshCache) ''cimg/base''
          (DockerCache_Remove (DockerCache freshCache) ''cimg/base''
             (snd (DockerCache_Add (DockerCache freshCache) ''cimg/base'' True sampleMemory))) = None)
   \<and> (GetContext (ContextCache freshCache) ''org-global'' storedMemory = Some 5
     \<and> GetContext (ContextCache freshCache) ''org-global''
          (RemoveContext (ContextCache freshCache) ''org-global'' storedMemory) = None
     \<and> mapObjs freshMemory (contextCache (ContextCache freshCache)) ''k'' = None
     \<and> RemoveContext (ContextCache freshCache) ''k'' freshMemory = freshMemory)
   \<and> (GetProject (ProjectCache freshCache) ''p1'' apartMemory = Some 8
     \<and> GetProject (ProjectCache freshCache) ''p1''
          (RemoveProject (ProjectCache freshCache) ''p1'' apartMemory) = None
     \<and> ''p2'' \<noteq> ''p1''
     \<and> mapObjs (RemoveProject (ProjectCache freshCache) ''p1'' apartMemory)
          (projectCache (ProjectCache freshCache)) ''p2'' = Some (Some 9)
     \<and> mapObjs freshMemory (projectCache (ProjectCache freshCache)) ''k'' = None
     \<and> RemoveProject (ProjectCache freshCache) ''k'' freshMemory = freshMemory)"
proof -
  have before: "GetFile (FileCache freshCache) ''file:///a.yml'' storedMemory = Some 5"
    "GetOrb (OrbCache freshCache) ''circleci/node@5'' orbsMemory = Some 5"
    "mapObjs orbsMemory (orbsCache (OrbCache freshCache)) ''circleci/go@1'' = Some (Some 8)"
    "DockerCache_Get (DockerCache freshCache) ''cimg/base''
          (snd (DockerCache_Add (DockerCache freshCache) ''cimg/base'' True sampleMemory)) = Some 8"
    "GetContext (ContextCache freshCache) ''org-global'' storedMemory = Some 5"
    "GetProject (ProjectCache freshCache) ''p1'' apartMemory = Some 8"
    "mapObjs apartMemory (projectCache (ProjectCache freshCache)) ''p2'' = Some (Some 9)"
    by (simp_all add: GetFile_def GetOrb_def GetContext_def GetProject_def DockerCache_Get_def
        DockerCache_Add_def Let_def mapaccess_def mapassign_def orbsMemory_def apartMemory_def
        sharedMemory_def storedMemory_def sampleMemory_def freshCache_eq freshMemory_eq
        emptyMemory_def)
  have absent: "mapObjs freshMemory (fileCache (FileCache freshCache)) ''k'' = None"
    "mapObjs freshMemory (orbsCache (OrbCache freshCache)) ''k'' = None"
    "mapObjs freshMemory (dockerCache (DockerCache freshCache)) ''k'' = None"
    "mapObjs freshMemory (contextCache (ContextCache freshCache)) ''k'' = None"
    "mapObjs freshMemory (projectCache (ProjectCache freshCache)) ''k'' = None"
    by (simp_all add: freshMemory_eq emptyMemory_def)
  show ?thesis
    using before absent
      Remove_then_Get_absent [where h = freshMemory and k = "''k''"
        and fc = "FileCache freshCache" and oc = "OrbCache freshCache"
        and dc = "DockerCache freshCache" and cc = "ContextCache freshCache"
        and pc = "ProjectCache freshCache"]
      Remove_then_Get_absent [where h = storedMemory and k = "''file:///a.yml''"
        and fc = "FileCache freshCache" and oc = "OrbCache freshCache"
        and dc = "DockerCache freshCache" and cc = "ContextCache freshCache"
        and pc = "ProjectCache freshCache"]
      Remove_then_Get_absent [where h = orbsMemory and k = "''circleci/node@5''"
        and fc = "FileCache freshCache" and oc = "OrbCache freshCache"
        and dc = "DockerCache freshCache" and cc = "ContextCache freshCache"
        and pc = "ProjectCache freshCache"]
      Remove_then_Get_absent [where
        h = "snd (DockerCache_Add (DockerCache freshCache) ''cimg/base'' True sampleMemory)"
        and k = "''cimg/base''"
        and fc = "FileCache freshCache" and oc = "OrbCache freshCache"
        and dc = "DockerCache freshCache" and cc = "ContextCache freshCache"
        and pc = "ProjectCache freshCache"]
      Remove_then_Get_absent [where h = storedMemory and k = "''org-global''"
        and fc = "FileCache freshCache" and oc = "OrbCache freshCache"
        and dc = "DockerCache freshCache" and cc = "ContextCache freshCache"
        and pc = "ProjectCache freshCache"]
      Remove_then_Get_absent [where h = apartMemory and k = "''p1''"
        and fc = "FileCache freshCache" and oc = "OrbCache freshCache"
        and dc = "DockerCache freshCache" and cc = "ContextCache freshCache"
        and pc = "ProjectCache freshCache"]
    by simp
qed

subsection \<open>The parsed attributes of an orb\<close>

text \<open>
  C4. When the orb store holds a record for \<open>orbID\<close> (\<open>HasOrb\<close> is true and \<open>GetOrb\<close>
  returns the record's address \<open>a\<close>), \<open>UpdateOrbParsedAttributes\<close> returns the attributes
  it was given and writes them into the record at \<open>a\<close>, in place: the store still holds
  the same address under \<open>orbID\<close>, the record's other fields are as they were, every
  other orb record in memory is as it was, and no map has changed, so every other id
  still holds the pointer it held (an id that was stored with the very same pointer
  shares the one record). When \<open>GetOrb\<close> returns nil the call is outside its
  precondition: it panics with a nil dereference.
\<close>
theorem UpdateOrbParsedAttributes_existing:
  "(HasOrb oc orbID h \<and> GetOrb oc orbID h = Some a \<longrightarrow>
      (\<exists>h'. UpdateOrbParsedAttributes oc orbID attrs h = Inr (attrs, h')
         \<and> GetOrb oc orbID h' = Some a
         \<and> orbInfos h' a = (orbInfos h a)\<lparr>OrbParsedAttributes := attrs\<rparr>
         \<and> OrbParsedAttributes (orbInfos h' a) = attrs
         \<and> RemoteInfo (orbInfos h' a) = RemoteInfo (orbInfos h a)
         \<and> (\<forall>b. b \<noteq> a \<longrightarrow> orbInfos h' b = orbInfos h b)
         \<and> mapObjs h' = mapObjs h))
   \<and> (GetOrb oc orbID h = None \<longrightarrow>
        UpdateOrbParsedAttributes oc orbID attrs h = Inl NilPointerDereference)"
  by (simp add: UpdateOrbParsedAttributes_def GetOrb_def mapaccess_def)

theorem UpdateOrbParsedAttributes_existing_witness:
  "HasOrb (OrbCache freshCache) ''circleci/node@5''
     storedMemory
   \<and> GetOrb (OrbCache freshCache) ''circleci/node@5''
     storedMemory = Some 5
   \<and> (\<exists>h'. UpdateOrbParsedAttributes (OrbCache freshCache) ''circleci/node@5'' ()
           storedMemory = Inr ((), h')
         \<and> GetOrb (OrbCache freshCache) ''circleci/node@5'' h' = Some 5
         \<and> (4::nat) \<noteq> 5 \<and> orbInfos h' 4 = orbInfos sampleMemory 4)
   \<and> GetOrb (OrbCache freshCache) ''circleci/go@1'' sampleMemory = None
   \<and> UpdateOrbParsedAttributes (OrbCache freshCache) ''circleci/go@1'' () sampleMemory
       = Inl NilPointerDereference"
  using UpdateOrbParsedAttributes_existing [where oc = "OrbCache freshCache"
      and orbID = "''circleci/node@5''" and a = 5 and attrs = "()"
      and h = storedMemory]
    UpdateOrbParsedAttributes_existing [where oc = "OrbCache freshCache"
      and orbID = "''circleci/go@1''" and attrs = "()" and h = sampleMemory]
  by (simp add: storedMemory_def sampleMemory_def freshCache_eq freshMemory_eq emptyMemory_def
      UpdateOrbParsedAttributes_def GetOrb_def HasOrb_def mapaccess_ok_def
      mapaccess_def mapassign_def)

subsection \<open>Slices and append\<close>

lemma map_nth_default:
  "length xs = n \<Longrightarrow> map (\<lambda>i. if i < length xs then xs ! i else d) [0..<n] = xs"
  by (auto intro: nth_equalityI)


lemma sliceElems_length: "length (sliceElems h s) = len s"
  by (simp add: sliceElems_def)

lemma sliceElems_go_append:
  "sliceElems (snd (go_append s x e h)) (fst (go_append s x e h)) = sliceElems h s @ [x]"
proof (cases "len s < cap s")
  case True
  then show ?thesis
    by (simp add: go_append_def sliceElems_def)
next
  case False
  have "length (sliceElems h s @ [x]) = Suc (len s)"
    by (simp add: sliceElems_length)
  then have "map (\<lambda>i. if i < length (sliceElems h s @ [x]) then (sliceElems h s @ [x]) ! i else [])
      [0..<Suc (len s)] = sliceElems h s @ [x]"
    by (rule map_nth_default)
  then show ?thesis
    using False by (simp add: go_append_def Let_def sliceElems_def [of _ "\<lparr>base = _, start = _, len = _, cap = _\<rparr>"])
qed

lemma go_append_frame:
  "documents (snd (go_append s x e h)) = documents h"
  "orbInfos (snd (go_append s x e h)) = orbInfos h"
  "dockerImages (snd (go_append s x e h)) = dockerImages h"
  "contextObjs (snd (go_append s x e h)) = contextObjs h"
  "projectObjs (snd (go_append s x e h)) = projectObjs h"
  "mapObjs (snd (go_append s x e h)) = mapObjs h"
  "nextFree h \<le> nextFree (snd (go_append s x e h))"
  by (simp_all add: go_append_def Let_def)




lemma sliceElems_same_arrays:
  "stringArrays h' = stringArrays h \<Longrightarrow> sliceElems h' s = sliceElems h s"
  by (simp add: sliceElems_def)

subsection \<open>Adding a variable to a context or a project\<close>

lemma AddEnvVariableToContext_found:
  assumes "mapObjs h (contextCache cc) k = Some (Some a)"
    and "v \<in> set (sliceElems h (envVariables (contextObjs h a)))"
  shows "AddEnvVariableToContext cc k v e h = Inr h"
  using assms
  by (simp add: AddEnvVariableToContext_def mapaccess_def Let_def FindInArray_neg mapassign_same)

lemma AddEnvVariableToContext_appended:
  assumes "mapObjs h (contextCache cc) k = Some (Some a)"
    and "v \<notin> set (sliceElems h (envVariables (contextObjs h a)))"
  shows "AddEnvVariableToContext cc k v e h =
     Inr ((snd (go_append (envVariables (contextObjs h a)) v e h))
            \<lparr>contextObjs := (contextObjs h)
               (a := (contextObjs h a)
                  \<lparr>envVariables := fst (go_append (envVariables (contextObjs h a)) v e h)\<rparr>)\<rparr>)"
  using assms
  by (simp add: AddEnvVariableToContext_def mapaccess_def Let_def FindInArray_neg split_def
      go_append_frame mapassign_same)

lemma AddEnvVariableToProject_found:
  assumes "mapObjs h (projectCache pc) k = Some (Some a)"
    and "v \<in> set (sliceElems h (EnvVariables (projectObjs h a)))"
  shows "AddEnvVariableToProject pc k v e h = Inr h"
  using assms
  by (simp add: AddEnvVariableToProject_def mapaccess_def Let_def FindInArray_neg mapassign_same)

lemma AddEnvVariableToProject_appended:
  assumes "mapObjs h (projectCache pc) k = Some (Some a)"
    and "v \<notin> set (sliceElems h (EnvVariables (projectObjs h a)))"
  shows "AddEnvVariableToProject pc k v e h =
     Inr ((snd (go_append (EnvVariables (projectObjs h a)) v e h))
            \<lparr>projectObjs := (projectObjs h)
               (a := (projectObjs h a)
                  \<lparr>EnvVariables := fst (go_append (EnvVariables (projectObjs h a)) v e h)\<rparr>)\<rparr>)"
  using assms
  by (simp add: AddEnvVariableToProject_def mapaccess_def Let_def FindInArray_neg split_def
      go_append_frame mapassign_same)

text \<open>
  C9. \<open>AddEnvVariableToContext\<close> and \<open>AddEnvVariableToProject\<close> return only when the
  store holds a record under the name. When the lookup yields nil the call panics with a
  nil dereference: it returns no memory, so it neither makes a record nor acts as a
  no-op. When the lookup yields a record the call returns, and the store still holds
  that record under the name.
\<close>
theorem AddEnvVariable_needs_record:
  "(GetContext cc name h = None \<longrightarrow>
      AddEnvVariableToContext cc name v e h = Inl NilPointerDereference)
   \<and> (GetContext cc name h \<noteq> None \<longrightarrow>
      (\<exists>h'. AddEnvVariableToContext cc name v e h = Inr h'
         \<and> GetContext cc name h' = GetContext cc name h))
   \<and> (GetProject pc name h = None \<longrightarrow>
      AddEnvVariableToProject pc name v e h = Inl NilPointerDereference)
   \<and> (GetProject pc name h \<noteq> None \<longrightarrow>
      (\<exists>h'. AddEnvVariableToProject pc name v e h = Inr h'
         \<and> GetProject pc name h' = GetProject pc name h))"
  by (auto simp: AddEnvVariableToContext_def AddEnvVariableToProject_def GetContext_def
      GetProject_def Let_def split_def mapaccess_def mapassign_def go_append_frame)

theorem AddEnvVariable_needs_record_witness:
  "GetContext (ContextCache freshCache) ''org-global'' sampleMemory = None
   \<and> AddEnvVariableToContext (ContextCache freshCache) ''org-global'' ''TOKEN'' 0 sampleMemory
       = Inl NilPointerDereference
   \<and> GetContext (ContextCache freshCache) ''org-global'' storedMemory \<noteq> None
   \<and> (\<exists>h'. AddEnvVariableToContext (ContextCache freshCache) ''org-global'' ''KEY'' 0 storedMemory
       = Inr h')
   \<and> GetProject (ProjectCache freshCache) ''gh/acme/app'' sampleMemory = None
   \<and> AddEnvVariableToProject (ProjectCache freshCache) ''gh/acme/app'' ''TOKEN'' 0 sampleMemory
       = Inl NilPointerDereference
   \<and> GetProject (ProjectCache freshCache) ''gh/acme/app'' storedMemory \<noteq> None
   \<and> (\<exists>h'. AddEnvVariableToProject (ProjectCache freshCache) ''gh/acme/app'' ''KEY'' 0 storedMemory
       = Inr h')"
  using AddEnvVariable_needs_record [where cc = "ContextCache freshCache"
      and pc = "ProjectCache freshCache" and name = "''org-global''" and v = "''TOKEN''"
      and e = 0 and h = sampleMemory]
    AddEnvVariable_needs_record [where cc = "ContextCache freshCache"
      and pc = "ProjectCache freshCache" and name = "''gh/acme/app''" and v = "''TOKEN''"
      and e = 0 and h = sampleMemory]
    AddEnvVariable_needs_record [where cc = "ContextCache freshCache"
      and pc = "ProjectCache freshCache" and name = "''org-global''" and v = "''KEY''"
      and e = 0 and h = storedMemory]
    AddEnvVariable_needs_record [where cc = "ContextCache freshCache"
      and pc = "ProjectCache freshCache" and name = "''gh/acme/app''" and v = "''KEY''"
      and e = 0 and h = storedMemory]
  by (simp add: storedMemory_def sampleMemory_def freshCache_eq freshMemory_eq emptyMemory_def
      GetContext_def GetProject_def AddEnvVariableToContext_def AddEnvVariableToProject_def
      FindInArray_def sliceElems_def go_append_def Let_def split_def mapaccess_def mapassign_def)

text \<open>
  C6. When the store holds, under \<open>k\<close>, a record whose list of variables has no
  duplicates, adding the variable \<open>v\<close> twice succeeds both times, the second call leaves
  the whole memory (so the list) as the first call left it, and the list then holds
  \<open>v\<close> exactly once. For contexts and for projects, whether \<open>append\<close> writes in place
  or allocates, and whatever room it leaves.
\<close>
theorem AddEnvVariable_idempotent:
  "(GetContext cc k h = Some a \<and> distinct (sliceElems h (envVariables (contextObjs h a))) \<longrightarrow>
      (\<exists>h1. AddEnvVariableToContext cc k v e h = Inr h1
         \<and> AddEnvVariableToContext cc k v e' h1 = Inr h1
         \<and> count_list (sliceElems h1 (envVariables (contextObjs h1 a))) v = 1))
   \<and> (GetProject pc k h = Some a \<and> distinct (sliceElems h (EnvVariables (projectObjs h a))) \<longrightarrow>
      (\<exists>h1. AddEnvVariableToProject pc k v e h = Inr h1
         \<and> AddEnvVariableToProject pc k v e' h1 = Inr h1
         \<and> count_list (sliceElems h1 (EnvVariables (projectObjs h1 a))) v = 1))"
proof (intro conjI impI)
  assume A: "GetContext cc k h = Some a \<and> distinct (sliceElems h (envVariables (contextObjs h a)))"
  then have entry: "mapObjs h (contextCache cc) k = Some (Some a)"
    by (auto simp: GetContext_def mapaccess_def split: option.splits)
  show "\<exists>h1. AddEnvVariableToContext cc k v e h = Inr h1
         \<and> AddEnvVariableToContext cc k v e' h1 = Inr h1
         \<and> count_list (sliceElems h1 (envVariables (contextObjs h1 a))) v = 1"
  proof (cases "v \<in> set (sliceElems h (envVariables (contextObjs h a)))")
    case True
    then show ?thesis
      using A by (simp add: AddEnvVariableToContext_found [OF entry True] count_list_distinct)
  next
    case False
    define g where "g = go_append (envVariables (contextObjs h a)) v e h"
    define h1 where "h1 = (snd g)\<lparr>contextObjs := (contextObjs h)
        (a := (contextObjs h a)\<lparr>envVariables := fst g\<rparr>)\<rparr>"
    have run: "AddEnvVariableToContext cc k v e h = Inr h1"
      unfolding h1_def g_def by (rule AddEnvVariableToContext_appended [OF entry False])
    have entry1: "mapObjs h1 (contextCache cc) k = Some (Some a)"
      by (simp add: h1_def g_def go_append_frame entry)
    have elems1: "sliceElems h1 (envVariables (contextObjs h1 a))
        = sliceElems h (envVariables (contextObjs h a)) @ [v]"
      using sliceElems_go_append [of "envVariables (contextObjs h a)" v e h]
      by (simp add: h1_def g_def sliceElems_def)
    have again: "AddEnvVariableToContext cc k v e' h1 = Inr h1"
      by (rule AddEnvVariableToContext_found [OF entry1]) (simp add: elems1)
    have "count_list (sliceElems h1 (envVariables (contextObjs h1 a))) v = 1"
      using A False by (simp add: elems1 count_list_distinct)
    then show ?thesis using run again by simp
  qed
next
  assume A: "GetProject pc k h = Some a \<and> distinct (sliceElems h (EnvVariables (projectObjs h a)))"
  then have entry: "mapObjs h (projectCache pc) k = Some (Some a)"
    by (auto simp: GetProject_def mapaccess_def split: option.splits)
  show "\<exists>h1. AddEnvVariableToProject pc k v e h = Inr h1
         \<and> AddEnvVariableToProject pc k v e' h1 = Inr h1
         \<and> count_list (sliceElems h1 (EnvVariables (projectObjs h1 a))) v = 1"
  proof (cases "v \<in> set (sliceElems h (EnvVariables (projectObjs h a)))")
    case True
    then show ?thesis
      using A by (simp add: AddEnvVariableToProject_found [OF entry True] count_list_distinct)
  next
    case False
    define g where "g = go_append (EnvVariables (projectObjs h a)) v e h"
    define h1 where "h1 = (snd g)\<lparr>projectObjs := (projectObjs h)
        (a := (projectObjs h a)\<lparr>EnvVariables := fst g\<rparr>)\<rparr>"
    have run: "AddEnvVariableToProject pc k v e h = Inr h1"
      unfolding h1_def g_def by (rule AddEnvVariableToProject_appended [OF entry False])
    have entry1: "mapObjs h1 (projectCache pc) k = Some (Some a)"
      by (simp add: h1_def g_def go_append_frame entry)
    have elems1: "sliceElems h1 (EnvVariables (projectObjs h1 a))
        = sliceElems h (EnvVariables (projectObjs h a)) @ [v]"
      using sliceElems_go_append [of "EnvVariables (projectObjs h a)" v e h]
      by (simp add: h1_def g_def sliceElems_def)
    have again: "AddEnvVariableToProject pc k v e' h1 = Inr h1"
      by (rule AddEnvVariableToProject_found [OF entry1]) (simp add: elems1)
    have "count_list (sliceElems h1 (EnvVariables (projectObjs h1 a))) v = 1"
      using A False by (simp add: elems1 count_list_distinct)
    then show ?thesis using run again by simp
  qed
qed

theorem AddEnvVariable_idempotent_witness:
  "GetContext (ContextCache freshCache) ''org-global'' storedMemory = Some 5
   \<and> sliceElems storedMemory (envVariables (contextObjs storedMemory 5)) = [''TOKEN'']
   \<and> (\<exists>h1. AddEnvVariableToContext (ContextCache freshCache) ''org-global'' ''KEY'' 0 storedMemory
          = Inr h1
        \<and> AddEnvVariableToContext (ContextCache freshCache) ''org-global'' ''KEY'' 0 h1 = Inr h1
        \<and> sliceElems h1 (envVariables (contextObjs h1 5)) = [''TOKEN'', ''KEY''])
   \<and> GetProject (ProjectCache freshCache) ''gh/acme/app'' storedMemory = Some 5
   \<and> sliceElems storedMemory (EnvVariables (projectObjs storedMemory 5)) = [''TOKEN'']
   \<and> (\<exists>h1. AddEnvVariableToProject (ProjectCache freshCache) ''gh/acme/app'' ''KEY'' 0 storedMemory
          = Inr h1
        \<and> AddEnvVariableToProject (ProjectCache freshCache) ''gh/acme/app'' ''KEY'' 0 h1 = Inr h1
        \<and> sliceElems h1 (EnvVariables (projectObjs h1 5)) = [''TOKEN'', ''KEY''])"
  using AddEnvVariable_idempotent [where cc = "ContextCache freshCache"
      and pc = "ProjectCache freshCache" and k = "''org-global''" and v = "''KEY''"
      and a = 5 and e = 0 and e' = 0 and h = storedMemory]
    AddEnvVariable_idempotent [where cc = "ContextCache freshCache"
      and pc = "ProjectCache freshCache" and k = "''gh/acme/app''" and v = "''KEY''"
      and a = 5 and e = 0 and e' = 0 and h = storedMemory]
  by (simp add: storedMemory_def sampleMemory_def freshCache_eq freshMemory_eq emptyMemory_def
      GetContext_def GetProject_def AddEnvVariableToContext_def AddEnvVariableToProject_def
      FindInArray_def sliceElems_def go_append_def Let_def split_def mapaccess_def mapassign_def)

subsection \<open>Lists of variables without duplicates\<close>
























subsection \<open>The mapping that GetFiles, GetAllContext and GetAllProjects return\<close>

text \<open>
  C1, as stated, fails: what the three methods return is the store's own map. A caller
  that writes a key into the mapping \<open>GetFiles\<close> returned makes \<open>GetFile\<close> return that
  entry; a caller that deletes from, or overwrites in, the mapping of the context or
  project store changes what \<open>GetContext\<close> and \<open>GetProject\<close> return; and a \<open>SetFile\<close> or
  \<open>RemoveContext\<close> made after the mapping was returned shows in that mapping.
\<close>
theorem GetAll_is_not_a_copy:
  "GetFile (FileCache freshCache) ''file:///a.yml'' sampleMemory = None
   \<and> GetFile (FileCache freshCache) ''file:///a.yml''
        (mapassign (GetFiles (FileCache freshCache) sampleMemory) ''file:///a.yml'' (Some 5)
           sampleMemory) = Some 5
   \<and> GetContext (ContextCache freshCache) ''org-global'' storedMemory = Some 5
   \<and> GetContext (ContextCache freshCache) ''org-global''
        (mapdelete (GetAllContext (ContextCache freshCache) storedMemory) ''org-global''
           storedMemory) = None
   \<and> GetProject (ProjectCache freshCache) ''gh/acme/app'' storedMemory = Some 5
   \<and> GetProject (ProjectCache freshCache) ''gh/acme/app''
        (mapassign (GetAllProjects (ProjectCache freshCache) storedMemory) ''gh/acme/app'' None
           storedMemory) = None
   \<and> mapaccess sampleMemory (GetFiles (FileCache freshCache) sampleMemory) ''file:///a.yml'' = None
   \<and> SetFile (FileCache freshCache) (Some 5) sampleMemory
       = Inr (documents sampleMemory 5,
              mapassign (fileCache (FileCache freshCache)) ''file:///a.yml'' (Some 5) sampleMemory)
   \<and> mapaccess (mapassign (fileCache (FileCache freshCache)) ''file:///a.yml'' (Some 5) sampleMemory)
        (GetFiles (FileCache freshCache) sampleMemory) ''file:///a.yml'' = Some 5
   \<and> mapaccess storedMemory (GetAllContext (ContextCache freshCache) storedMemory) ''org-global''
       = Some 5
   \<and> mapaccess (RemoveContext (ContextCache freshCache) ''org-global'' storedMemory)
        (GetAllContext (ContextCache freshCache) storedMemory) ''org-global'' = None"
  by (simp add: GetFile_def GetFiles_def GetContext_def GetAllContext_def GetProject_def
      GetAllProjects_def SetFile_def RemoveContext_def storedMemory_def sampleMemory_def
      freshCache_eq freshMemory_eq emptyMemory_def mapaccess_def mapassign_def mapdelete_def)

text \<open>
  C1, amended. \<open>GetFiles\<close>, \<open>GetAllContext\<close> and \<open>GetAllProjects\<close> return the store's
  live map, not a copy. A write or a delete the caller makes through the mapping is what
  the store's Get then returns; a Set or Remove made later on the store shows through
  the mapping returned earlier; at any later memory \<open>g\<close>, reading the mapping at a key
  gives what the store's Get gives.
\<close>
theorem GetAll_returns_the_store_map:
  "(GetFile fc k (mapassign (GetFiles fc h) k p h) = p
      \<and> GetFile fc k (mapdelete (GetFiles fc h) k h) = None
      \<and> (SetFile fc (Some a) h = Inr (d, h') \<longrightarrow> mapaccess h' (GetFiles fc h) (URI d) = Some a)
      \<and> mapaccess (RemoveFile fc k h) (GetFiles fc h) k = None
      \<and> mapaccess g (GetFiles fc h) k = GetFile fc k g)
   \<and> (GetContext cc k (mapassign (GetAllContext cc h) k p h) = p
      \<and> GetContext cc k (mapdelete (GetAllContext cc h) k h) = None
      \<and> (SetContext cc (Some a) h = Inr (r, h') \<longrightarrow>
            mapaccess h' (GetAllContext cc h) (Name (contextObjs h a)) = Some a)
      \<and> mapaccess (RemoveContext cc k h) (GetAllContext cc h) k = None
      \<and> mapaccess g (GetAllContext cc h) k = GetContext cc k g)
   \<and> (GetProject pc k (mapassign (GetAllProjects pc h) k p h) = p
      \<and> GetProject pc k (mapdelete (GetAllProjects pc h) k h) = None
      \<and> (SetProject pc (Some a) h = Inr (r, h') \<longrightarrow>
            mapaccess h' (GetAllProjects pc h) (Slug (projectObjs h a)) = Some a)
      \<and> mapaccess (RemoveProject pc k h) (GetAllProjects pc h) k = None
      \<and> mapaccess g (GetAllProjects pc h) k = GetProject pc k g)"
  by (auto simp: GetFile_def GetFiles_def SetFile_def RemoveFile_def
      GetContext_def GetAllContext_def SetContext_def RemoveContext_def
      GetProject_def GetAllProjects_def SetProject_def RemoveProject_def
      mapaccess_def mapassign_def mapdelete_def Let_def)

theorem GetAll_returns_the_store_map_witness:
  "(SetFile (FileCache freshCache) (Some 5) sampleMemory
       = Inr (documents sampleMemory 5,
              mapassign (fileCache (FileCache freshCache)) ''file:///a.yml'' (Some 5) sampleMemory)
      \<and> mapaccess (mapassign (fileCache (FileCache freshCache)) ''file:///a.yml'' (Some 5) sampleMemory)
           (GetFiles (FileCache freshCache) sampleMemory) (URI (documents sampleMemory 5)) = Some 5)
   \<and> (SetContext (ContextCache freshCache) (Some 5) sampleMemory
       = Inr (Some 5,
              mapassign (contextCache (ContextCache freshCache)) ''org-global'' (Some 5) sampleMemory)
      \<and> mapaccess (mapassign (contextCache (ContextCache freshCache)) ''org-global'' (Some 5) sampleMemory)
           (GetAllContext (ContextCache freshCache) sampleMemory) (Name (contextObjs sampleMemory 5))
          = Some 5)
   \<and> (SetProject (ProjectCache freshCache) (Some 5) sampleMemory
       = Inr (Some 5,
              mapassign (projectCache (ProjectCache freshCache)) ''gh/acme/app'' (Some 5) sampleMemory)
      \<and> mapaccess (mapassign (projectCache (ProjectCache freshCache)) ''gh/acme/app'' (Some 5) sampleMemory)
           (GetAllProjects (ProjectCache freshCache) sampleMemory) (Slug (projectObjs sampleMemory 5))
          = Some 5)"
proof -
  have f: "SetFile (FileCache freshCache) (Some 5) sampleMemory
       = Inr (documents sampleMemory 5,
              mapassign (fileCache (FileCache freshCache)) ''file:///a.yml'' (Some 5) sampleMemory)"
    by (simp add: SetFile_def sampleMemory_def mapassign_def)
  have c: "SetContext (ContextCache freshCache) (Some 5) sampleMemory
       = Inr (Some 5,
              mapassign (contextCache (ContextCache freshCache)) ''org-global'' (Some 5) sampleMemory)"
    by (simp add: SetContext_def sampleMemory_def)
  have p: "SetProject (ProjectCache freshCache) (Some 5) sampleMemory
       = Inr (Some 5,
              mapassign (projectCache (ProjectCache freshCache)) ''gh/acme/app'' (Some 5) sampleMemory)"
    by (simp add: SetProject_def sampleMemory_def)
  show ?thesis
    using f c p
      GetAll_returns_the_store_map [where fc = "FileCache freshCache"
        and cc = "ContextCache freshCache" and pc = "ProjectCache freshCache"
        and h = sampleMemory and a = 5 and d = "documents sampleMemory 5"
        and k = "''k''" and p = None and r = "Some 5"  and g = sampleMemory
        and h' = "mapassign (fileCache (FileCache freshCache)) ''file:///a.yml'' (Some 5) sampleMemory"]
      GetAll_returns_the_store_map [where fc = "FileCache freshCache"
        and cc = "ContextCache freshCache" and pc = "ProjectCache freshCache"
        and h = sampleMemory and a = 5 and d = "documents sampleMemory 5"
        and k = "''k''" and p = None and r = "Some 5"  and g = sampleMemory
        and h' = "mapassign (contextCache (ContextCache freshCache)) ''org-global'' (Some 5) sampleMemory"]
      GetAll_returns_the_store_map [where fc = "FileCache freshCache"
        and cc = "ContextCache freshCache" and pc = "ProjectCache freshCache"
        and h = sampleMemory and a = 5 and d = "documents sampleMemory 5"
        and k = "''k''" and p = None and r = "Some 5"  and g = sampleMemory
        and h' = "mapassign (projectCache (ProjectCache freshCache)) ''gh/acme/app'' (Some 5) sampleMemory"]
    by simp
qed

subsection \<open>ClearHostData\<close>











subsection \<open>GetOrbCacheFSPath\<close>

lemma segments_nonempty: "segments p \<noteq> []"
  by (induction p) (auto split: list.splits)

lemma segments_append_slash: "segments (a @ CHR ''/'' # b) = segments a @ segments b"
proof (induction a)
  case Nil
  show ?case by simp
next
  case (Cons c cs)
  obtain s ss where "segments cs = s # ss"
    using segments_nonempty [of cs] by (cases "segments cs") auto
  then show ?case using Cons.IH by simp
qed

lemma joinSlash_Cons_char: "joinSlash ((c # s) # ss) = c # joinSlash (s # ss)"
  by (cases ss) simp_all

lemma joinSlash_segments: "joinSlash (segments p) = p"
proof (induction p)
  case Nil
  show ?case by simp
next
  case (Cons c cs)
  obtain s ss where seg: "segments cs = s # ss"
    using segments_nonempty [of cs] by (cases "segments cs") auto
  show ?case
    using Cons.IH seg by (simp add: joinSlash_Cons_char)
qed

lemma joinSlash_append:
  "ys \<noteq> [] \<Longrightarrow>
   joinSlash (xs @ ys) = (if xs = [] then joinSlash ys else joinSlash xs @ CHR ''/'' # joinSlash ys)"
proof (induction xs rule: joinSlash.induct)
  case 1
  show ?case by simp
next
  case (2 x)
  then obtain y ys' where "ys = y # ys'" by (cases ys) auto
  then show ?case by simp
next
  case (3 x y zs)
  then show ?case by simp
qed

lemma cleanLoop_append:
  "cleanLoop r out (xs @ ys) = cleanLoop r (cleanLoop r out xs) ys"
  by (induction xs arbitrary: out) simp_all

lemma cleanLoop_kept:
  "\<forall>s \<in> set ss. s \<noteq> [] \<and> s \<noteq> ''.'' \<and> s \<noteq> ''..'' \<Longrightarrow> cleanLoop r out ss = rev ss @ out"
  by (induction ss arbitrary: out) simp_all

lemma path_Clean_keeps_tail:
  assumes keep: "\<forall>s \<in> set (segments f). s \<noteq> [] \<and> s \<noteq> ''.'' \<and> s \<noteq> ''..''"
  shows "\<exists>pre. path_Clean (b @ CHR ''/'' # f) = pre @ f \<and> (pre = [] \<or> last pre = CHR ''/'')"
proof -
  define r where "r = (hd (b @ CHR ''/'' # f) = CHR ''/'')"
  define outb where "outb = cleanLoop r [] (segments b)"
  define pre where "pre = (if r then ''/'' else []) @
      (if outb = [] then [] else joinSlash (rev outb) @ ''/'')"
  have fne: "f \<noteq> []"
  proof
    assume "f = []"
    then have "[] \<in> set (segments f)" by simp
    with keep show False by blast
  qed
  have out: "cleanLoop r [] (segments (b @ CHR ''/'' # f)) = rev (segments f) @ outb"
    by (simp add: segments_append_slash cleanLoop_append cleanLoop_kept [OF keep] outb_def)
  have js: "joinSlash (rev outb @ segments f)
      = (if outb = [] then [] else joinSlash (rev outb) @ ''/'') @ f"
    by (simp add: joinSlash_append segments_nonempty joinSlash_segments)
  have "path_Clean (b @ CHR ''/'' # f) = pre @ f"
    using fne by (simp add: path_Clean_def Let_def r_def [symmetric] out js pre_def)
  moreover have "pre = [] \<or> last pre = CHR ''/''"
    by (simp add: pre_def)
  ultimately show ?thesis by blast
qed

lemma path_Clean_fixed:
  assumes keep: "\<forall>s \<in> set (segments f). s \<noteq> [] \<and> s \<noteq> ''.'' \<and> s \<noteq> ''..''"
  shows "path_Clean f = f"
proof -
  have fne: "f \<noteq> []"
  proof
    assume "f = []"
    then have "[] \<in> set (segments f)" by simp
    with keep show False by blast
  qed
  have notrooted: "hd f \<noteq> CHR ''/''"
  proof
    assume "hd f = CHR ''/''"
    with fne obtain cs where "f = CHR ''/'' # cs" by (cases f) auto
    then have "[] \<in> set (segments f)" by simp
    with keep show False by blast
  qed
  show ?thesis
    using fne notrooted
    by (simp add: path_Clean_def Let_def cleanLoop_kept [OF keep] joinSlash_segments)
qed


lemma orb_file_segments:
  "segments (''cci/orbs/.circleci/'' @ n) = [''cci'', ''orbs'', ''.circleci''] @ segments n"
proof -
  obtain s ss where "segments n = s # ss"
    using segments_nonempty [of n] by (cases "segments n") auto
  then show ?thesis by simp
qed

lemma orb_file_join:
  "path_Join [''cci'', ''orbs'', ''.circleci'', n @ ''.yml''] = path_Clean (''cci/orbs/.circleci/'' @ n @ ''.yml'')"
  by (simp add: path_Join_def)

lemma orb_file_kept:
  assumes "\<forall>s \<in> set (segments (n @ ''.yml'')). s \<noteq> [] \<and> s \<noteq> ''.'' \<and> s \<noteq> ''..''"
  shows "\<forall>s \<in> set (segments (''cci/orbs/.circleci/'' @ n @ ''.yml'')). s \<noteq> [] \<and> s \<noteq> ''.'' \<and> s \<noteq> ''..''"
  using assms by (simp add: orb_file_segments)


lemma segments_slash_free: "CHR ''/'' \<notin> set n \<Longrightarrow> segments n = [n]"
  by (induction n) auto

lemma slash_free_name_kept:
  assumes "CHR ''/'' \<notin> set n"
  shows "\<forall>s \<in> set (segments (n @ ''.yml'')). s \<noteq> [] \<and> s \<noteq> ''.'' \<and> s \<noteq> ''..''"
proof -
  have "segments (n @ ''.yml'') = [n @ ''.yml'']"
    using assms by (intro segments_slash_free) simp
  moreover have "n @ ''.yml'' \<noteq> x" if "length x < 4" for x :: string
  proof
    assume "n @ ''.yml'' = x"
    then have "length (n @ ''.yml'') = length x" by simp
    with that show False by simp
  qed
  then have "n @ ''.yml'' \<noteq> [] \<and> n @ ''.yml'' \<noteq> ''.'' \<and> n @ ''.yml'' \<noteq> ''..''"
    by simp
  ultimately show ?thesis by simp
qed

text \<open>
  C7, as stated, fails: \<open>path.Join\<close> cleans the path it builds, so a \<open>..\<close> inside the orb
  name removes the element before it. For the name \<open>../x\<close> both branches return
  \<open>/home/u/.cache/cci/orbs/x.yml\<close>, whose last elements are \<open>cci/orbs/x.yml\<close>: the
  directory \<open>.circleci\<close> is gone.
\<close>
theorem GetOrbCacheFSPath_parent_segment:
  "GetOrbCacheFSPath (linuxXDG True) ''../x'' = ''/home/u/.cache/cci/orbs/x.yml''
   \<and> GetOrbCacheFSPath (linuxXDG False) ''../x'' = ''/home/u/.cache/cci/orbs/x.yml''
   \<and> segments ''/home/u/.cache/cci/orbs/x.yml''
       = [[], ''home'', ''u'', ''.cache'', ''cci'', ''orbs'', ''x.yml'']
   \<and> ''.circleci'' \<notin> set (segments ''/home/u/.cache/cci/orbs/x.yml'')"
  by (simp add: GetOrbCacheFSPath_def xdg_CacheFile_def linuxXDG_def path_Join_def path_Clean_def)

text \<open>
  C7, amended. When no element of \<open><orbName>.yml\<close>, cut at its slashes, is empty, \<open>.\<close>
  or \<open>..\<close> (every name without a slash is such a name, by \<open>slash_free_name_kept\<close>),
  \<open>GetOrbCacheFSPath\<close> returns a path that ends in \<open>cci/orbs/.circleci/<orbName>.yml\<close>,
  with nothing or a slash right before it, in the branch of \<open>xdg.CacheFile\<close> and in the
  fallback branch under the home directory alike.
\<close>
theorem GetOrbCacheFSPath_form:
  assumes "\<forall>s \<in> set (segments (orbYaml @ ''.yml'')). s \<noteq> [] \<and> s \<noteq> ''.'' \<and> s \<noteq> ''..''"
  shows "\<exists>pre. GetOrbCacheFSPath x orbYaml = pre @ ''cci/orbs/.circleci/'' @ orbYaml @ ''.yml''
           \<and> (pre = [] \<or> last pre = CHR ''/'')"
proof -
  define f where "f = ''cci/orbs/.circleci/'' @ orbYaml @ ''.yml''"
  have keep: "\<forall>s \<in> set (segments f). s \<noteq> [] \<and> s \<noteq> ''.'' \<and> s \<noteq> ''..''"
    unfolding f_def using assms by (rule orb_file_kept)
  have fileq: "path_Join [''cci'', ''orbs'', ''.circleci'', orbYaml @ ''.yml''] = f"
    unfolding orb_file_join f_def [symmetric] using keep by (rule path_Clean_fixed)
  have fne: "f \<noteq> []"
    by (simp add: f_def)
  have tail: "\<exists>pre. path_Clean (b @ CHR ''/'' # f) = pre @ f \<and> (pre = [] \<or> last pre = CHR ''/'')" for b
    using keep by (rule path_Clean_keeps_tail)
  have same: "\<exists>pre. path_Clean f = pre @ f \<and> (pre = [] \<or> last pre = CHR ''/'')"
    using path_Clean_fixed [OF keep] by simp
  have cache: "\<exists>pre. path_Join [CacheHome x, f] = pre @ f \<and> (pre = [] \<or> last pre = CHR ''/'')"
  proof (cases "CacheHome x = []")
    case True
    then show ?thesis using same fne by (simp add: path_Join_def)
  next
    case False
    then show ?thesis using tail [of "CacheHome x"] fne by (simp add: path_Join_def)
  qed
  have home: "\<exists>pre. path_Join [Home x, ''.cache'', f] = pre @ f \<and> (pre = [] \<or> last pre = CHR ''/'')"
  proof (cases "Home x = []")
    case True
    then show ?thesis using tail [of "''.cache''"] by (simp add: path_Join_def)
  next
    case False
    then show ?thesis using tail [of "Home x @ ''/.cache''"] by (simp add: path_Join_def)
  qed
  have "\<exists>pre. GetOrbCacheFSPath x orbYaml = pre @ f \<and> (pre = [] \<or> last pre = CHR ''/'')"
    using cache home by (simp add: GetOrbCacheFSPath_def xdg_CacheFile_def fileq)
  then show ?thesis by (simp add: f_def)
qed

theorem GetOrbCacheFSPath_form_witness:
  "segments (''my-orb'' @ ''.yml'') = [''my-orb.yml'']
   \<and> (\<exists>pre. GetOrbCacheFSPath (linuxXDG True) ''my-orb''
          = pre @ ''cci/orbs/.circleci/'' @ ''my-orb'' @ ''.yml'' \<and> (pre = [] \<or> last pre = CHR ''/''))
   \<and> (\<exists>pre. GetOrbCacheFSPath (linuxXDG False) ''my-orb''
          = pre @ ''cci/orbs/.circleci/'' @ ''my-orb'' @ ''.yml'' \<and> (pre = [] \<or> last pre = CHR ''/''))
   \<and> GetOrbCacheFSPath (linuxXDG True) ''my-orb'' = ''/home/u/.cache/cci/orbs/.circleci/my-orb.yml''
   \<and> GetOrbCacheFSPath (linuxXDG False) ''my-orb'' = ''/home/u/.cache/cci/orbs/.circleci/my-orb.yml''"
proof -
  have hyp: "\<forall>s \<in> set (segments (''my-orb'' @ ''.yml'')). s \<noteq> [] \<and> s \<noteq> ''.'' \<and> s \<noteq> ''..''"
    by simp
  have vals: "GetOrbCacheFSPath (linuxXDG True) ''my-orb'' = ''/home/u/.cache/cci/orbs/.circleci/my-orb.yml''
     \<and> GetOrbCacheFSPath (linuxXDG False) ''my-orb'' = ''/home/u/.cache/cci/orbs/.circleci/my-orb.yml''"
    by (simp add: GetOrbCacheFSPath_def xdg_CacheFile_def linuxXDG_def path_Join_def path_Clean_def)
  have segs: "segments (''my-orb'' @ ''.yml'') = [''my-orb.yml'']"
    by simp
  show ?thesis
    using segs vals GetOrbCacheFSPath_form [OF hyp, of "linuxXDG True"]
      GetOrbCacheFSPath_form [OF hyp, of "linuxXDG False"]
    by blast
qed

end
